theory Spec2Isabelle
  imports Complex_Main
begin

section \<open>JavaScript values\<close>

text \<open>
  The front end shapes JSON that the backend returns, so every value it touches is a
  JavaScript value parsed from JSON (or \<open>undefined\<close>, which a missing property reads as).

  A Number is \<open>NaN\<close>, an infinity, or a finite value \<open>Fin r\<close> with \<open>r\<close> the real number it
  stands for; \<open>+0\<close> and \<open>-0\<close> are both \<open>Fin 0\<close> (the program never tells them apart).
  A string is a list of code units below 256 (characters past U+00FF are not modelled).
  An object is the list of its own properties, read by name with the first binding
  winning.
\<close>

datatype jsnum = NaN | PosInf | NegInf | Fin real

datatype jsval =
    JUndefined
  | JNull
  | JBool bool
  | JNum jsnum
  | JStr string
  | JArr "jsval list"
  | JObj "(string \<times> jsval) list"

datatype error = TypeError

text \<open>Evaluation that may throw: \<open>Inl\<close> is the exception, \<open>Inr\<close> the value.\<close>

fun ebind :: "error + 'a \<Rightarrow> ('a \<Rightarrow> error + 'b) \<Rightarrow> error + 'b" where
  "ebind (Inl e) f = Inl e"
| "ebind (Inr x) f = f x"

text \<open>\<open>ToBoolean\<close>: the falsy values are undefined, null, false, 0, NaN and the empty string.\<close>

fun truthy :: "jsval \<Rightarrow> bool" where
  "truthy JUndefined = False"
| "truthy JNull = False"
| "truthy (JBool b) = b"
| "truthy (JNum NaN) = False"
| "truthy (JNum (Fin r)) = (r \<noteq> 0)"
| "truthy (JNum _) = True"
| "truthy (JStr s) = (s \<noteq> [])"
| "truthy (JArr _) = True"
| "truthy (JObj _) = True"

fun nullish :: "jsval \<Rightarrow> bool" where
  "nullish JUndefined = True"
| "nullish JNull = True"
| "nullish _ = False"

text \<open>\<open>Array.isArray\<close>.\<close>

fun isArray :: "jsval \<Rightarrow> bool" where
  "isArray (JArr _) = True"
| "isArray _ = False"

text \<open>
  The value of a property of an object: \<open>undefined\<close> when the object has no such property.
\<close>

definition field :: "(string \<times> jsval) list \<Rightarrow> string \<Rightarrow> jsval" where
  "field ps k = (case map_of ps k of None \<Rightarrow> JUndefined | Some v \<Rightarrow> v)"

text \<open>
  Property access \<open>v.k\<close>. Reading a property of \<open>undefined\<close> or \<open>null\<close> throws a TypeError.
  On a primitive or an array the read yields \<open>undefined\<close>: the only names the program reads
  are JSON field names (\<open>station_id\<close>, \<open>latitude\<close>, \<open>routes\<close>, ...), none of which is a
  built-in property of strings, numbers, booleans or arrays.
\<close>

fun getProp :: "jsval \<Rightarrow> string \<Rightarrow> error + jsval" where
  "getProp JUndefined k = Inl TypeError"
| "getProp JNull k = Inl TypeError"
| "getProp (JObj ps) k = Inr (field ps k)"
| "getProp _ k = Inr JUndefined"

text \<open>Optional chaining \<open>v?.k\<close>: \<open>undefined\<close> instead of a TypeError on a nullish base.\<close>

definition getPropOpt :: "jsval \<Rightarrow> string \<Rightarrow> jsval" where
  "getPropOpt v k = (case getProp v k of Inl _ \<Rightarrow> JUndefined | Inr x \<Rightarrow> x)"

text \<open>
  The short-circuit operators \<open>a || b\<close>, \<open>a && b\<close> and \<open>a ?? b\<close>. The right operand is
  evaluated (and may throw) only when the left one does not decide the result.
\<close>

definition js_or :: "error + jsval \<Rightarrow> error + jsval \<Rightarrow> error + jsval" where
  "js_or ma mb = ebind ma (\<lambda>a. if truthy a then Inr a else mb)"

definition js_and :: "error + jsval \<Rightarrow> error + jsval \<Rightarrow> error + jsval" where
  "js_and ma mb = ebind ma (\<lambda>a. if truthy a then mb else Inr a)"

definition js_coalesce :: "error + jsval \<Rightarrow> error + jsval \<Rightarrow> error + jsval" where
  "js_coalesce ma mb = ebind ma (\<lambda>a. if nullish a then mb else Inr a)"

text \<open>
  \<open>xs.map(f)\<close> on a JavaScript value: a TypeError when \<open>xs\<close> is not an array (it has no
  \<open>map\<close> method), otherwise the callback runs on the elements in order and the first
  exception it throws ends the call.
\<close>

fun mapM :: "('a \<Rightarrow> error + 'b) \<Rightarrow> 'a list \<Rightarrow> error + 'b list" where
  "mapM f [] = Inr []"
| "mapM f (x # xs) = ebind (f x) (\<lambda>y. ebind (mapM f xs) (\<lambda>ys. Inr (y # ys)))"

fun js_map :: "(jsval \<Rightarrow> error + 'b) \<Rightarrow> jsval \<Rightarrow> error + 'b list" where
  "js_map f (JArr xs) = mapM f xs"
| "js_map f _ = Inl TypeError"


section \<open>The built-in \<open>parseFloat\<close>\<close>

text \<open>
  \<open>parseFloat(v)\<close> converts \<open>v\<close> to a string, drops leading white space and reads the longest
  prefix that is a decimal literal: an optional sign, then \<open>Infinity\<close>, or digits with an
  optional fraction and exponent, or a fraction that starts with the dot. The result is
  \<open>NaN\<close> exactly when there is no such prefix.

  For a literal the model returns the real number the literal denotes; the rounding to
  the nearest double, which the engine applies afterwards, is left out (it never changes
  whether the result is \<open>NaN\<close>).
\<close>

definition isDigit :: "char \<Rightarrow> bool" where
  "isDigit c = (c \<in> set ''0123456789'')"

definition isWhite :: "char \<Rightarrow> bool" where
  \<comment> \<open>tab, line feed, vertical tab, form feed, carriage return, space, no-break space\<close>
  "isWhite c = ((of_char c :: nat) \<in> {9, 10, 11, 12, 13, 32, 160})"

definition digitsVal :: "string \<Rightarrow> nat" where
  "digitsVal ds = foldl (\<lambda>a c. 10 * a + (of_char c - 48)) 0 ds"

definition scale10 :: "nat \<Rightarrow> int \<Rightarrow> real" where
  "scale10 m e = (if 0 \<le> e then real m * 10 ^ nat e else real m / 10 ^ nat (- e))"

definition expDigits :: "int \<Rightarrow> string \<Rightarrow> int" where
  \<comment> \<open>an exponent needs at least one digit; without one the \<open>e\<close> is not part of the literal\<close>
  "expDigits sg r =
     (let ds = takeWhile isDigit r in if ds = [] then 0 else sg * int (digitsVal ds))"

fun expPart :: "string \<Rightarrow> int" where
  "expPart [] = 0"
| "expPart (c # r) =
     (if c = CHR ''e'' \<or> c = CHR ''E'' then
        (case r of
           [] \<Rightarrow> 0
         | d # r' \<Rightarrow>
             if d = CHR ''+'' then expDigits 1 r'
             else if d = CHR ''-'' then expDigits (- 1) r'
             else expDigits 1 r)
      else 0)"

definition fracPart :: "string \<Rightarrow> string \<times> string" where
  \<comment> \<open>the digits after a dot, and what follows them\<close>
  "fracPart r1 =
     (case r1 of
        [] \<Rightarrow> ([], [])
      | c # r \<Rightarrow> if c = CHR ''.'' then (takeWhile isDigit r, dropWhile isDigit r) else ([], r1))"

definition unsignedLit :: "string \<Rightarrow> jsnum" where
  "unsignedLit s =
     (if take 8 s = ''Infinity'' then PosInf
      else
        let ip = takeWhile isDigit s;
            (fp, r2) = fracPart (dropWhile isDigit s)
        in if ip = [] \<and> fp = [] then NaN
           else Fin (scale10 (digitsVal (ip @ fp)) (expPart r2 - int (length fp))))"

fun negate :: "jsnum \<Rightarrow> jsnum" where
  "negate NaN = NaN"
| "negate PosInf = NegInf"
| "negate NegInf = PosInf"
| "negate (Fin r) = Fin (- r)"

fun signedLit :: "string \<Rightarrow> jsnum" where
  "signedLit [] = NaN"
| "signedLit (c # r) =
     (if c = CHR ''-'' then negate (unsignedLit r)
      else if c = CHR ''+'' then unsignedLit r
      else unsignedLit (c # r))"

definition parseFloatStr :: "string \<Rightarrow> jsnum" where
  "parseFloatStr s = signedLit (dropWhile isWhite s)"

text \<open>
  The argument is converted to a string first (\<open>ToString\<close>), and that conversion can
  throw. An object parsed from JSON is converted by its \<open>toString\<close> method, then by
  \<open>valueOf\<close>. An own property named \<open>toString\<close> hides the inherited method and, being JSON
  data, is not callable; \<open>valueOf\<close> (inherited, or an own property that is not callable
  either) yields no primitive; so the conversion throws a TypeError exactly when the
  object has an own property \<open>toString\<close>. An array is converted by joining the conversions
  of all its elements (an \<open>undefined\<close> or \<open>null\<close> element gives the empty string without
  being converted), so it throws when the conversion of any element does.
\<close>

fun toStringThrows :: "jsval \<Rightarrow> bool" where
  "toStringThrows (JObj ps) = (map_of ps ''toString'' \<noteq> None)"
| "toStringThrows (JArr xs) = (\<exists>x \<in> set xs. toStringThrows x)"
| "toStringThrows _ = False"

text \<open>
  The number read from the string of a value whose conversion does not throw. A Number
  prints as a literal that reads back as the same Number. \<open>undefined\<close>, \<open>null\<close>, a boolean
  and an object (\<open>[object Object]\<close>) print as words with no numeric prefix. An array prints
  its elements separated by commas, and a literal never contains a comma, so only the
  first element is read.
\<close>

fun numericPrefix :: "jsval \<Rightarrow> jsnum" where
  "numericPrefix (JStr s) = parseFloatStr s"
| "numericPrefix (JNum n) = n"
| "numericPrefix (JArr (x # xs)) = numericPrefix x"
| "numericPrefix _ = NaN"

definition parseFloat :: "jsval \<Rightarrow> error + jsnum" where
  "parseFloat v = (if toStringThrows v then Inl TypeError else Inr (numericPrefix v))"

text \<open>\<open>isNaN\<close> on a Number.\<close>

definition isNaN :: "jsnum \<Rightarrow> bool" where
  "isNaN n = (n = NaN)"


section \<open>Station records\<close>

text \<open>
  A station arrives with its fields under either of two naming conventions. The program
  has no single normalizing function; it repeats the same expressions wherever it reads
  a station. Each is modelled once.

  The model stops at the values the components compute and hand to React and Leaflet
  (texts, option values, marker positions, line coordinates); how those libraries draw
  them is outside it.
\<close>

text \<open>\<open>s.station_id || s.StationId\<close> (App, dropdown options and handlers; MapView, line 50).\<close>

definition stationId :: "jsval \<Rightarrow> error + jsval" where
  "stationId s = js_or (getProp s ''station_id'') (getProp s ''StationId'')"

text \<open>\<open>s.StationName || s.station_name || id\<close> (App, dropdown options; MapView, line 51).\<close>

definition stationName :: "jsval \<Rightarrow> jsval \<Rightarrow> error + jsval" where
  "stationName s ident =
     js_or (js_or (getProp s ''StationName'') (getProp s ''station_name'')) (Inr ident)"

text \<open>MapView, \<open>toLat\<close> and \<open>toLon\<close>.\<close>

definition toLat :: "jsval \<Rightarrow> error + jsnum" where
  "toLat s =
     ebind (js_coalesce (getProp s ''latitude'') (getProp s ''Latitude'')) parseFloat"

definition toLon :: "jsval \<Rightarrow> error + jsnum" where
  "toLon s =
     ebind (js_coalesce (getProp s ''longitude'') (getProp s ''Longitude'')) parseFloat"


section \<open>MapView: markers and route overlays\<close>

text \<open>
  What the callback of \<open>stations.map\<close> in MapView computes for one station: nothing
  (\<open>null\<close>) when a coordinate is not a number, otherwise a marker at \<open>[lat, lon]\<close> whose
  popup shows the name, the identifier and the city. The \<open>isStart\<close>/\<open>isEnd\<close> flags only
  choose the text of the two buttons and are left out.
\<close>

record marker =
  position :: "jsnum \<times> jsnum"
  marker_id :: jsval
  marker_name :: jsval
  marker_city :: jsval

definition stationMarker :: "jsval \<Rightarrow> error + marker option" where
  "stationMarker s =
     ebind (toLat s) (\<lambda>lat.
     ebind (toLon s) (\<lambda>lon.
       if isNaN lat \<or> isNaN lon then Inr None
       else
         ebind (stationId s) (\<lambda>ident.
         ebind (stationName s ident) (\<lambda>name.
         ebind (js_or (getProp s ''City'') (getProp s ''city'')) (\<lambda>c.
           Inr (Some \<lparr>position = (lat, lon), marker_id = ident,
                      marker_name = name, marker_city = c\<rparr>))))))"


text \<open>Indexing \<open>xs[i]\<close> on an array: \<open>undefined\<close> past the end.\<close>

definition elemAt :: "jsval list \<Rightarrow> nat \<Rightarrow> jsval" where
  "elemAt xs i = (if i < length xs then xs ! i else JUndefined)"

text \<open>
  The parameter pattern \<open>[lon, lat]\<close> takes the first two items of an iterable. An array
  gives its elements and a string its characters, \<open>undefined\<close> standing for a missing
  one; anything else is not iterable, and binding it throws a TypeError.
\<close>

fun destructurePair :: "jsval \<Rightarrow> error + jsval \<times> jsval" where
  "destructurePair (JArr xs) = Inr (elemAt xs 0, elemAt xs 1)"
| "destructurePair (JStr cs) = Inr (elemAt (map (\<lambda>c. JStr [c]) cs) 0, elemAt (map (\<lambda>c. JStr [c]) cs) 1)"
| "destructurePair _ = Inl TypeError"

text \<open>\<open>([lon, lat]) => [lat, lon]\<close>\<close>

definition swapPair :: "jsval \<Rightarrow> error + jsval" where
  "swapPair p = ebind (destructurePair p) (\<lambda>(lon, lat). Inr (JArr [lat, lon]))"

text \<open>
  The memoised \<open>polylines\<close> of MapView, from the stored prediction result:
  \<open>routesResult?.ors_geometry\<close>, no line unless that is an array, and otherwise one line
  for each of its entries that is itself an array.
\<close>

definition polylines :: "jsval \<Rightarrow> error + jsval list list" where
  "polylines routesResult =
     (case getPropOpt routesResult ''ors_geometry'' of
        JArr g \<Rightarrow> mapM (js_map swapPair) (filter isArray g)
      | _ \<Rightarrow> Inr [])"


section \<open>RoutePanel: the summary of a prediction result\<close>

record route_summary =
  idx :: jsval
  avg :: jsval
  max' :: jsval
  waypoints :: jsval

text \<open>The callback of \<open>routes.map\<close>, for one route entry.\<close>

definition summarize :: "jsval \<Rightarrow> error + route_summary" where
  "summarize r =
     ebind (getProp r ''route_index'') (\<lambda>i.
     ebind (getProp r ''avg_forecast_pm2_5'') (\<lambda>a.
     ebind (getProp r ''max_forecast_pm2_5'') (\<lambda>m.
     ebind (getProp r ''waypoints'') (\<lambda>w.
       Inr \<lparr>idx = i,
            avg = (case a of JArr xs \<Rightarrow> elemAt xs 0 | _ \<Rightarrow> JNull),
            max' = (case m of JArr xs \<Rightarrow> elemAt xs 0 | _ \<Rightarrow> JNull),
            waypoints = w\<rparr>))))"

text \<open>\<open>(routesResult.routes || []).map(...)\<close>\<close>

definition summary :: "jsval \<Rightarrow> error + route_summary list" where
  "summary routesResult =
     ebind (js_or (getProp routesResult ''routes'') (Inr (JArr []))) (js_map summarize)"

text \<open>A forecast value as the panel prints it: \<open>r.avg ?? "N/A"\<close>.\<close>

definition shown :: "jsval \<Rightarrow> jsval" where
  "shown v = (if nullish v then JStr ''N/A'' else v)"

record panel_row =
  row_route :: jsval
  row_avg :: jsval
  row_max :: jsval
  row_waypoints :: jsval

definition panelRow :: "route_summary \<Rightarrow> panel_row" where
  "panelRow r =
     \<lparr>row_route = idx r, row_avg = shown (avg r), row_max = shown (max' r),
      row_waypoints = waypoints r\<rparr>"

text \<open>
  What the panel displays: either the paragraph "No route predicted yet. ..." alone, or
  the routes summary, made of the paragraph "No valid predictions returned." (present or
  not), one row for each route, the value of \<open>gemini_summary\<close> (displayed as the AI summary
  when truthy) and the raw response.
\<close>

datatype panel =
    NoRoutePredictedYet
  | RoutesSummary (no_valid_predictions: bool) (panel_rows: "panel_row list")
      (ai_summary: jsval) (raw_response: jsval)

definition RoutePanel :: "jsval \<Rightarrow> error + panel" where
  "RoutePanel routesResult =
     (if \<not> truthy routesResult then Inr NoRoutePredictedYet
      else
        ebind (summary routesResult) (\<lambda>sm.
        ebind (getProp routesResult ''gemini_summary'') (\<lambda>g.
          Inr (RoutesSummary (length sm = 0) (map panelRow sm) g routesResult))))"


section \<open>App: state, derived values and handlers\<close>

record picked =
  start :: jsval
  end' :: jsval

record app =
  stations :: jsval
  loading :: bool
  routesResult :: jsval
  picked :: picked

text \<open>The initial values of the four \<open>useState\<close> cells.\<close>

definition init :: app where
  "init = \<lparr>stations = JArr [], loading = False, routesResult = JNull,
            picked = \<lparr>start = JNull, end' = JNull\<rparr>\<rparr>"

text \<open>
  \<open>s.StationName || s.station_name || s.StationId || s.station_id\<close>, the text of the
  placeholder entry of a dropdown once a station is picked.
\<close>

definition stationLabel :: "jsval \<Rightarrow> error + jsval" where
  "stationLabel s =
     js_or (js_or (js_or (getProp s ''StationName'') (getProp s ''station_name''))
                  (getProp s ''StationId''))
           (getProp s ''station_id'')"

definition startLabel :: "picked \<Rightarrow> error + jsval" where
  "startLabel p = (if truthy (start p) then stationLabel (start p) else Inr (JStr ''Select start''))"

definition endLabel :: "picked \<Rightarrow> error + jsval" where
  "endLabel p = (if truthy (end' p) then stationLabel (end' p) else Inr (JStr ''Select end''))"

text \<open>
  \<open>picked.start && picked.end\<close>. Neither operand can throw, so the value is given
  directly: the start selection when that is falsy, the end selection otherwise.
\<close>

definition canPredict :: "picked \<Rightarrow> jsval" where
  "canPredict p = (if truthy (start p) then end' p else start p)"

text \<open>The \<open>disabled\<close> attribute of the predict button: \<open>!canPredict || loading\<close>.\<close>

definition predictDisabled :: "app \<Rightarrow> bool" where
  "predictDisabled a = (\<not> truthy (canPredict (picked a)) \<or> loading a)"

text \<open>One entry of a dropdown: \<open><option key={id} value={id}>{nm}</option>\<close>.\<close>

record station_option =
  opt_value :: jsval
  opt_label :: jsval

definition stationOption :: "jsval \<Rightarrow> error + station_option" where
  "stationOption s =
     ebind (stationId s) (\<lambda>ident.
     ebind (stationName s ident) (\<lambda>nm.
       Inr \<lparr>opt_value = ident, opt_label = nm\<rparr>))"



text \<open>
  The outcome of a call to the backend: the promise resolves with the body of the
  response (\<open>r.data\<close>) or is rejected.
\<close>

datatype response = Resolved jsval | Rejected

text \<open>
  The body of the predict request. The program sends two strings, \<open>`${sLat},${sLon}`\<close> and
  \<open>`${dLat},${dLon}`\<close>; each is kept here as the pair of values that are printed into it.
  Printing converts a value to a string as \<open>parseFloat\<close> does. The values printed are the
  coordinates of the picked stations, the very values \<open>toLat\<close> and \<open>toLon\<close> converted when
  the map was drawn, and a station list on which that conversion throws leaves no map
  and no dropdown to pick from; the conversion is not repeated here.
\<close>

record request =
  source :: "jsval \<times> jsval"
  destination :: "jsval \<times> jsval"

text \<open>api: \<open>fetchStations\<close> returns \<open>r.data || []\<close>, \<open>predictRoute\<close> returns \<open>r.data\<close>.\<close>

fun fetchStations :: "response \<Rightarrow> response" where
  "fetchStations (Resolved d) = Resolved (if truthy d then d else JArr [])"
| "fetchStations Rejected = Rejected"

definition predictRoute :: "(request \<Rightarrow> response) \<Rightarrow> request \<Rightarrow> response" where
  "predictRoute post req = post req"

text \<open>The part of \<open>onPredict\<close> between \<open>setLoading(true)\<close> and the \<open>try\<close> block.\<close>

definition predictRequest :: "picked \<Rightarrow> error + request" where
  "predictRequest p =
     ebind (js_coalesce (getProp (start p) ''latitude'') (getProp (start p) ''Latitude'')) (\<lambda>sLat.
     ebind (js_coalesce (getProp (start p) ''longitude'') (getProp (start p) ''Longitude'')) (\<lambda>sLon.
     ebind (js_coalesce (getProp (end' p) ''latitude'') (getProp (end' p) ''Latitude'')) (\<lambda>dLat.
     ebind (js_coalesce (getProp (end' p) ''longitude'') (getProp (end' p) ''Longitude'')) (\<lambda>dLon.
       Inr \<lparr>source = (sLat, sLon), destination = (dLat, dLon)\<rparr>))))"

text \<open>
  \<open>onPredict\<close>, run to completion against a backend \<open>post\<close>. The result is the state it
  leaves and the exception that escaped it, if any. An exception thrown before the \<open>try\<close>
  block would escape after \<open>setLoading(true)\<close> and before \<open>setLoading(false)\<close>; a rejected
  request is caught and reported with an alert.
\<close>

definition onPredict :: "(request \<Rightarrow> response) \<Rightarrow> app \<Rightarrow> app \<times> error option" where
  "onPredict post a =
     (if \<not> truthy (canPredict (picked a)) then (a, None)
      else
        let a1 = a\<lparr>loading := True\<rparr> in
        case predictRequest (picked a) of
          Inl e \<Rightarrow> (a1, Some e)
        | Inr req \<Rightarrow>
            (case predictRoute post req of
               Resolved res \<Rightarrow> (a1\<lparr>routesResult := res, loading := False\<rparr>, None)
             | Rejected \<Rightarrow> (a1\<lparr>loading := False\<rparr>, None)))"

text \<open>
  \<open>stations.find(s => (s.station_id || s.StationId) === id)\<close> with \<open>id\<close> the string value
  of the chosen dropdown entry: only a string equal to \<open>id\<close> is strictly equal to it.
\<close>

fun findM :: "('a \<Rightarrow> error + bool) \<Rightarrow> 'a list \<Rightarrow> error + 'a option" where
  "findM f [] = Inr None"
| "findM f (x # xs) = ebind (f x) (\<lambda>b. if b then Inr (Some x) else findM f xs)"

fun findStation :: "jsval \<Rightarrow> string \<Rightarrow> error + jsval" where
  "findStation (JArr xs) ident =
     ebind (findM (\<lambda>s. ebind (stationId s) (\<lambda>v. Inr (v = JStr ident))) xs)
       (\<lambda>r. Inr (case r of None \<Rightarrow> JUndefined | Some s \<Rightarrow> s))"
| "findStation _ ident = Inl TypeError"

text \<open>
  The events that change the state: the station list arrives (or fails to), a dropdown
  changes to the entry with value \<open>id\<close>, a "Set Start"/"Set End" button in the popup of the
  marker of station number \<open>i\<close> is clicked, the predict button is clicked and the request
  completes.
\<close>

datatype event =
    LoadStations response
  | ChangeStart string
  | ChangeEnd string
  | SetStart nat
  | SetEnd nat
  | Predict response

text \<open>The station whose marker carries the clicked button, if that marker is on the map.\<close>

definition markedStation :: "jsval \<Rightarrow> nat \<Rightarrow> jsval option" where
  "markedStation sts i =
     (case sts of
        JArr xs \<Rightarrow>
          if i < length xs then
            (case stationMarker (xs ! i) of Inr (Some m) \<Rightarrow> Some (xs ! i) | _ \<Rightarrow> None)
          else None
      | _ \<Rightarrow> None)"

fun step :: "app \<Rightarrow> event \<Rightarrow> app" where
  "step a (LoadStations r) =
     (case fetchStations r of
        Resolved d \<Rightarrow> a\<lparr>stations := (if truthy d then d else JArr [])\<rparr>
      | Rejected \<Rightarrow> a)"
| "step a (ChangeStart ident) =
     (case findStation (stations a) ident of
        Inl e \<Rightarrow> a
      | Inr st \<Rightarrow> a\<lparr>picked := (picked a)\<lparr>start := (if truthy st then st else JNull)\<rparr>\<rparr>)"
| "step a (ChangeEnd ident) =
     (case findStation (stations a) ident of
        Inl e \<Rightarrow> a
      | Inr st \<Rightarrow> a\<lparr>picked := (picked a)\<lparr>end' := (if truthy st then st else JNull)\<rparr>\<rparr>)"
| "step a (SetStart i) =
     (case markedStation (stations a) i of
        None \<Rightarrow> a
      | Some s \<Rightarrow> a\<lparr>picked := (picked a)\<lparr>start := s\<rparr>\<rparr>)"
| "step a (SetEnd i) =
     (case markedStation (stations a) i of
        None \<Rightarrow> a
      | Some s \<Rightarrow> a\<lparr>picked := (picked a)\<lparr>end' := s\<rparr>\<rparr>)"
| "step a (Predict r) =
     (if predictDisabled a then a else fst (onPredict (\<lambda>req. r) a))"

text \<open>The state after a sequence of events, from the initial state.\<close>

definition run :: "event list \<Rightarrow> app" where
  "run evs = foldl step init evs"


section \<open>Reference points from the specification\<close>

text \<open>
  The display name in the order the specification gives: the snake-case field, then the
  capitalized field, then the identifier (itself snake-case first).
\<close>

definition spec_displayName :: "(string \<times> jsval) list \<Rightarrow> jsval" where
  "spec_displayName ps =
     (if truthy (field ps ''station_name'') then field ps ''station_name''
      else if truthy (field ps ''StationName'') then field ps ''StationName''
      else if truthy (field ps ''station_id'') then field ps ''station_id''
      else field ps ''StationId'')"

text \<open>
  The same four values as a station record under only the capitalized convention, and
  under only the lower-case convention.
\<close>

definition capitalizedRecord :: "jsval \<Rightarrow> jsval \<Rightarrow> jsval \<Rightarrow> jsval \<Rightarrow> jsval" where
  "capitalizedRecord i n la lo =
     JObj [(''StationId'', i), (''StationName'', n), (''Latitude'', la), (''Longitude'', lo)]"

definition lowercaseRecord :: "jsval \<Rightarrow> jsval \<Rightarrow> jsval \<Rightarrow> jsval \<Rightarrow> jsval" where
  "lowercaseRecord i n la lo =
     JObj [(''station_id'', i), (''station_name'', n), (''latitude'', la), (''longitude'', lo)]"


text \<open>
  A coordinate pair as the backend sends it, \<open>[lon, lat]\<close>, and as the map takes it,
  \<open>[lat, lon]\<close>; the pair \<open>p\<close> is (longitude, latitude) in both.
\<close>

definition lonLat :: "jsval \<times> jsval \<Rightarrow> jsval" where
  "lonLat p = JArr [fst p, snd p]"

definition latLon :: "jsval \<times> jsval \<Rightarrow> jsval" where
  "latLon p = JArr [snd p, fst p]"


section \<open>Basic facts\<close>

lemma js_or_Inr [simp]: "js_or (Inr a) mb = (if truthy a then Inr a else mb)"
  by (simp add: js_or_def)

lemma js_coalesce_Inr [simp]: "js_coalesce (Inr a) mb = (if nullish a then mb else Inr a)"
  by (simp add: js_coalesce_def)

lemma mapM_total: "(\<And>x. x \<in> set xs \<Longrightarrow> f x = Inr (g x)) \<Longrightarrow> mapM f xs = Inr (map g xs)"
  by (induction xs) simp_all

lemma mapM_map: "mapM f (map h xs) = mapM (\<lambda>x. f (h x)) xs"
  by (induction xs) simp_all

lemma mapM_length: "mapM f xs = Inr ys \<Longrightarrow> length ys = length xs"
proof (induction xs arbitrary: ys)
  case Nil
  then show ?case by simp
next
  case (Cons x xs)
  then show ?case
    by (cases "f x"; cases "mapM f xs") auto
qed

lemma mapM_nth: "mapM f xs = Inr ys \<Longrightarrow> i < length xs \<Longrightarrow> f (xs ! i) = Inr (ys ! i)"
proof (induction xs arbitrary: ys i)
  case Nil
  then show ?case by simp
next
  case (Cons x xs)
  then show ?case
    by (cases "f x"; cases "mapM f xs"; cases i) auto
qed


section \<open>Field resolution\<close>

text \<open>
  C1, as stated, fails. The specification resolves every canonical field snake-case
  first. The program reads the display name from the capitalized \<open>StationName\<close> first,
  wherever it reads one: a station carrying both names is listed under the capitalized
  one.
\<close>

theorem display_name_prefers_capitalized:
  "stationOption (JObj [(''station_id'', JStr ''S1''), (''station_name'', JStr ''lower''),
                        (''StationName'', JStr ''Upper'')])
     = Inr \<lparr>opt_value = JStr ''S1'', opt_label = JStr ''Upper''\<rparr>
   \<and> spec_displayName [(''station_id'', JStr ''S1''), (''station_name'', JStr ''lower''),
                        (''StationName'', JStr ''Upper'')] = JStr ''lower''"
  by (simp add: stationOption_def stationId_def stationName_def spec_displayName_def field_def)

text \<open>
  C1, amended. For every station record (a JSON object): the identifier is \<open>station_id\<close>
  when that is truthy and \<open>StationId\<close> otherwise; latitude and longitude are what
  \<open>parseFloat\<close> makes of the lower-case field unless that is null or undefined, and of the
  capitalized field otherwise; the display name is \<open>StationName\<close> when truthy, otherwise
  \<open>station_name\<close> when truthy, in the dropdown entries, on the markers and in the label of
  a picked station alike; in a dropdown entry and on a marker it is otherwise the
  identifier. (What the label of a picked station shows when the record has neither
  name is left open.)
\<close>

theorem field_resolution_order:
  "stationId (JObj ps)
     = Inr (if truthy (field ps ''station_id'') then field ps ''station_id''
            else field ps ''StationId'')
   \<and> toLat (JObj ps)
     = parseFloat (if nullish (field ps ''latitude'') then field ps ''Latitude''
                   else field ps ''latitude'')
   \<and> toLon (JObj ps)
     = parseFloat (if nullish (field ps ''longitude'') then field ps ''Longitude''
                   else field ps ''longitude'')
   \<and> stationName (JObj ps) ident
     = Inr (if truthy (field ps ''StationName'') then field ps ''StationName''
            else if truthy (field ps ''station_name'') then field ps ''station_name''
            else ident)
   \<and> stationOption (JObj ps)
     = Inr \<lparr>opt_value = (if truthy (field ps ''station_id'') then field ps ''station_id''
                          else field ps ''StationId''),
            opt_label = (if truthy (field ps ''StationName'') then field ps ''StationName''
                         else if truthy (field ps ''station_name'') then field ps ''station_name''
                         else if truthy (field ps ''station_id'') then field ps ''station_id''
                         else field ps ''StationId'')\<rparr>
   \<and> (\<forall>m. stationMarker (JObj ps) = Inr (Some m) \<longrightarrow>
          marker_id m = (if truthy (field ps ''station_id'') then field ps ''station_id''
                         else field ps ''StationId'')
        \<and> marker_name m
            = (if truthy (field ps ''StationName'') then field ps ''StationName''
               else if truthy (field ps ''station_name'') then field ps ''station_name''
               else if truthy (field ps ''station_id'') then field ps ''station_id''
               else field ps ''StationId''))
   \<and> (truthy (field ps ''StationName'') \<longrightarrow>
          stationLabel (JObj ps) = Inr (field ps ''StationName''))
   \<and> (\<not> truthy (field ps ''StationName'') \<and> truthy (field ps ''station_name'') \<longrightarrow>
          stationLabel (JObj ps) = Inr (field ps ''station_name''))"
proof -
  have ident: "stationId (JObj ps)
     = Inr (if truthy (field ps ''station_id'') then field ps ''station_id''
            else field ps ''StationId'')"
    by (simp add: stationId_def)
  have name: "stationName (JObj ps) v
     = Inr (if truthy (field ps ''StationName'') then field ps ''StationName''
            else if truthy (field ps ''station_name'') then field ps ''station_name''
            else v)" for v
    by (simp add: stationName_def)
  have coords: "toLat (JObj ps)
     = parseFloat (if nullish (field ps ''latitude'') then field ps ''Latitude''
                   else field ps ''latitude'')"
    "toLon (JObj ps)
     = parseFloat (if nullish (field ps ''longitude'') then field ps ''Longitude''
                   else field ps ''longitude'')"
    by (simp_all add: toLat_def toLon_def)
  have opt: "stationOption (JObj ps)
     = Inr \<lparr>opt_value = (if truthy (field ps ''station_id'') then field ps ''station_id''
                          else field ps ''StationId''),
            opt_label = (if truthy (field ps ''StationName'') then field ps ''StationName''
                         else if truthy (field ps ''station_name'') then field ps ''station_name''
                         else if truthy (field ps ''station_id'') then field ps ''station_id''
                         else field ps ''StationId'')\<rparr>"
    unfolding stationOption_def ident name by simp
  have mark: "marker_id m = (if truthy (field ps ''station_id'') then field ps ''station_id''
                         else field ps ''StationId'')
        \<and> marker_name m
            = (if truthy (field ps ''StationName'') then field ps ''StationName''
               else if truthy (field ps ''station_name'') then field ps ''station_name''
               else if truthy (field ps ''station_id'') then field ps ''station_id''
               else field ps ''StationId'')"
    if m: "stationMarker (JObj ps) = Inr (Some m)" for m
  proof (cases "toLat (JObj ps)")
    case (Inl e)
    with m show ?thesis by (simp add: stationMarker_def)
  next
    case la: (Inr la)
    show ?thesis
    proof (cases "toLon (JObj ps)")
      case (Inl e)
      with m la show ?thesis by (simp add: stationMarker_def)
    next
      case (Inr lo)
      with m la show ?thesis
        unfolding stationMarker_def ident name
        by (cases "isNaN la \<or> isNaN lo"; cases "truthy (field ps ''City'')") auto
    qed
  qed
  have label: "truthy (field ps ''StationName'') \<longrightarrow>
      stationLabel (JObj ps) = Inr (field ps ''StationName'')"
    "\<not> truthy (field ps ''StationName'') \<and> truthy (field ps ''station_name'') \<longrightarrow>
      stationLabel (JObj ps) = Inr (field ps ''station_name'')"
    by (simp_all add: stationLabel_def)
  from ident coords name opt mark label show ?thesis by blast
qed

theorem field_resolution_order_witness:
  "stationId (JObj [(''StationId'', JStr ''S1''), (''station_id'', JStr ''s1'')]) = Inr (JStr ''s1'')
   \<and> toLat (JObj [(''Latitude'', JNum (Fin 2)), (''latitude'', JNum (Fin 1))]) = Inr (Fin 1)
   \<and> truthy (field [(''station_name'', JStr ''lower''), (''StationName'', JStr ''Upper'')] ''StationName'')
   \<and> stationLabel (JObj [(''station_name'', JStr ''lower''), (''StationName'', JStr ''Upper'')])
       = Inr (JStr ''Upper'')
   \<and> stationLabel (JObj [(''station_name'', JStr ''lower''), (''StationId'', JStr ''S1'')])
       = Inr (JStr ''lower'')
   \<and> (\<exists>m. stationMarker (JObj [(''StationId'', JStr ''S1''), (''station_id'', JStr ''s1''),
                                 (''latitude'', JNum (Fin 1)), (''longitude'', JNum (Fin 2))])
              = Inr (Some m)
          \<and> marker_id m = JStr ''s1'' \<and> marker_name m = JStr ''s1'')"
proof -
  let ?both = "[(''station_name'', JStr ''lower''), (''StationName'', JStr ''Upper'')]"
  let ?snake = "[(''station_name'', JStr ''lower''), (''StationId'', JStr ''S1'')]"
  let ?st = "[(''StationId'', JStr ''S1''), (''station_id'', JStr ''s1''),
              (''latitude'', JNum (Fin 1)), (''longitude'', JNum (Fin 2))]"
  have 1: "stationId (JObj [(''StationId'', JStr ''S1''), (''station_id'', JStr ''s1'')])
      = Inr (JStr ''s1'')"
    using field_resolution_order [of "[(''StationId'', JStr ''S1''), (''station_id'', JStr ''s1'')]"]
    by (simp add: field_def)
  have 2: "toLat (JObj [(''Latitude'', JNum (Fin 2)), (''latitude'', JNum (Fin 1))]) = Inr (Fin 1)"
    using field_resolution_order [of "[(''Latitude'', JNum (Fin 2)), (''latitude'', JNum (Fin 1))]"]
    by (simp add: field_def parseFloat_def)
  have t: "truthy (field ?both ''StationName'')" by (simp add: field_def)
  with field_resolution_order [of ?both]
  have 3: "stationLabel (JObj ?both) = Inr (JStr ''Upper'')" by (simp add: field_def)
  have "\<not> truthy (field ?snake ''StationName'') \<and> truthy (field ?snake ''station_name'')"
    by (simp add: field_def)
  with field_resolution_order [of ?snake]
  have 4: "stationLabel (JObj ?snake) = Inr (JStr ''lower'')" by (simp add: field_def)
  have "\<exists>m. stationMarker (JObj ?st) = Inr (Some m)"
    by (simp add: stationMarker_def toLat_def toLon_def stationId_def stationName_def
        parseFloat_def isNaN_def field_def)
  then obtain m where m: "stationMarker (JObj ?st) = Inr (Some m)" by blast
  with field_resolution_order [of ?st]
  have "marker_id m = JStr ''s1'' \<and> marker_name m = JStr ''s1''" by (simp add: field_def)
  with m have 5: "\<exists>m. stationMarker (JObj ?st) = Inr (Some m)
          \<and> marker_id m = JStr ''s1'' \<and> marker_name m = JStr ''s1''"
    by blast
  from 1 2 t 3 4 5 show ?thesis by blast
qed

text \<open>
  C7, as stated, fails. \<open>||\<close> skips every falsy value, so an identifier that is the empty
  string (or 0, false or null) is kept when it is the last operand, under the capitalized
  convention, and given up for the missing capitalized field under the lower-case one.
\<close>

theorem empty_identifier_depends_on_convention:
  "stationOption (capitalizedRecord (JStr []) (JStr ''Central'') (JNum (Fin 12)) (JNum (Fin 77)))
     = Inr \<lparr>opt_value = JStr [], opt_label = JStr ''Central''\<rparr>
   \<and> stationOption (lowercaseRecord (JStr []) (JStr ''Central'') (JNum (Fin 12)) (JNum (Fin 77)))
     = Inr \<lparr>opt_value = JUndefined, opt_label = JStr ''Central''\<rparr>"
  by (simp add: stationOption_def stationId_def stationName_def capitalizedRecord_def
      lowercaseRecord_def field_def)

text \<open>
  C7, amended. Two station records carrying the same values, one under only the
  capitalized convention and one under only the lower-case convention, always have the
  same parsed latitude and longitude; when the identifier is truthy they also have the
  same identifier (namely that value), the same dropdown entry (identifier and display
  name) and the same marker (position, identifier and display name).
\<close>

theorem convention_independence:
  "toLat (capitalizedRecord i n la lo) = toLat (lowercaseRecord i n la lo)
   \<and> toLon (capitalizedRecord i n la lo) = toLon (lowercaseRecord i n la lo)
   \<and> (truthy i \<longrightarrow>
        stationId (capitalizedRecord i n la lo) = Inr i
      \<and> stationId (lowercaseRecord i n la lo) = Inr i
      \<and> stationOption (capitalizedRecord i n la lo) = stationOption (lowercaseRecord i n la lo)
      \<and> stationMarker (capitalizedRecord i n la lo) = stationMarker (lowercaseRecord i n la lo))"
proof -
  let ?cap = "capitalizedRecord i n la lo" and ?low = "lowercaseRecord i n la lo"
  have missing: "parseFloat v = Inr NaN" if "nullish v" for v
    using that by (cases v) (simp_all add: parseFloat_def)
  have lat: "toLat ?cap = parseFloat la" "toLat ?low = parseFloat la"
    using missing [of la]
    by (simp_all add: toLat_def capitalizedRecord_def lowercaseRecord_def field_def
        missing [of JUndefined])
  have lon: "toLon ?cap = parseFloat lo" "toLon ?low = parseFloat lo"
    using missing [of lo]
    by (simp_all add: toLon_def capitalizedRecord_def lowercaseRecord_def field_def
        missing [of JUndefined])
  have ident: "stationId ?cap = Inr i" "stationId ?low = Inr i" if "truthy i"
    using that by (simp_all add: stationId_def capitalizedRecord_def lowercaseRecord_def field_def)
  have name: "stationName ?cap v = stationName ?low v" for v
    by (simp add: stationName_def capitalizedRecord_def lowercaseRecord_def field_def)
  have city: "js_or (getProp ?cap ''City'') (getProp ?cap ''city'')
      = js_or (getProp ?low ''City'') (getProp ?low ''city'')"
    by (simp add: capitalizedRecord_def lowercaseRecord_def field_def)
  have opt: "stationOption ?cap = stationOption ?low" if "truthy i"
    unfolding stationOption_def ident [OF that] name ..
  have mark: "stationMarker ?cap = stationMarker ?low" if "truthy i"
    unfolding stationMarker_def lat lon ident [OF that] city name ..
  from lat lon ident opt mark show ?thesis by simp
qed

theorem convention_independence_witness:
  "truthy (JStr ''S1'')
   \<and> stationOption (capitalizedRecord (JStr ''S1'') (JStr ''Central'') (JStr ''12.5'') (JNum (Fin 77)))
     = Inr \<lparr>opt_value = JStr ''S1'', opt_label = JStr ''Central''\<rparr>
   \<and> stationOption (lowercaseRecord (JStr ''S1'') (JStr ''Central'') (JStr ''12.5'') (JNum (Fin 77)))
     = Inr \<lparr>opt_value = JStr ''S1'', opt_label = JStr ''Central''\<rparr>"
proof -
  have t: "truthy (JStr ''S1'')" by simp
  have c: "stationOption (capitalizedRecord (JStr ''S1'') (JStr ''Central'') (JStr ''12.5'') (JNum (Fin 77)))
     = Inr \<lparr>opt_value = JStr ''S1'', opt_label = JStr ''Central''\<rparr>"
    by (simp add: stationOption_def stationId_def stationName_def capitalizedRecord_def field_def)
  from t c convention_independence [of "JStr ''S1''" "JStr ''Central''" "JStr ''12.5''" "JNum (Fin 77)"]
  show ?thesis by simp
qed


section \<open>Selection\<close>

lemma getProp_falsy:
  "\<not> truthy s \<Longrightarrow> getProp s k = Inl TypeError \<or> getProp s k = Inr JUndefined"
  by (cases s) auto

lemma toLat_falsy: "\<not> truthy s \<Longrightarrow> toLat s = Inl TypeError \<or> toLat s = Inr NaN"
  using getProp_falsy [of s "''latitude''"] getProp_falsy [of s "''Latitude''"]
  by (auto simp: toLat_def js_coalesce_def parseFloat_def)

text \<open>Only a truthy station gets a marker, so a marker button never selects a falsy value.\<close>

lemma stationMarker_truthy: "stationMarker s = Inr (Some m) \<Longrightarrow> truthy s"
  using toLat_falsy [of s]
  by (cases "truthy s"; cases "toLon s") (auto simp: stationMarker_def isNaN_def)

lemma markedStation_truthy: "markedStation sts i = Some s \<Longrightarrow> truthy s"
  by (auto simp: markedStation_def stationMarker_truthy
      split: jsval.splits if_splits sum.splits option.splits)

lemma onPredict_picked: "picked (fst (onPredict post a)) = picked a"
  by (simp add: onPredict_def Let_def split: sum.splits response.splits)

lemma step_selection:
  assumes "start (picked a) = JNull \<or> truthy (start (picked a))"
    and "end' (picked a) = JNull \<or> truthy (end' (picked a))"
  shows "(start (picked (step a e)) = JNull \<or> truthy (start (picked (step a e))))
       \<and> (end' (picked (step a e)) = JNull \<or> truthy (end' (picked (step a e))))"
proof (cases e)
  case (LoadStations r)
  with assms show ?thesis by (cases "fetchStations r") auto
next
  case (ChangeStart i)
  with assms show ?thesis by (cases "findStation (stations a) i") auto
next
  case (ChangeEnd i)
  with assms show ?thesis by (cases "findStation (stations a) i") auto
next
  case (SetStart i)
  with assms show ?thesis
    by (cases "markedStation (stations a) i") (auto dest: markedStation_truthy)
next
  case (SetEnd i)
  with assms show ?thesis
    by (cases "markedStation (stations a) i") (auto dest: markedStation_truthy)
next
  case (Predict r)
  with assms show ?thesis by (simp add: onPredict_picked)
qed

lemma run_snoc: "run (evs @ [e]) = step (run evs) e"
  by (simp add: run_def)

text \<open>In every state the program reaches, each selection is \<open>null\<close> or a truthy station.\<close>

lemma run_selection:
  "(start (picked (run evs)) = JNull \<or> truthy (start (picked (run evs))))
   \<and> (end' (picked (run evs)) = JNull \<or> truthy (end' (picked (run evs))))"
proof (induction evs rule: rev_induct)
  case Nil
  show ?case by (simp add: run_def init_def)
next
  case (snoc e evs)
  then show ?case unfolding run_snoc using step_selection by blast
qed

text \<open>
  C3. In every selection state the program reaches, \<open>canPredict\<close> is truthy if and only
  if both the start and the end selection are non-null. (\<open>canPredict\<close> is the value of
  \<open>picked.start && picked.end\<close>, a station or \<open>null\<close>; the program only tests it.)
\<close>

theorem canPredict_iff_both_selected:
  "truthy (canPredict (picked (run evs)))
     = (start (picked (run evs)) \<noteq> JNull \<and> end' (picked (run evs)) \<noteq> JNull)"
  using run_selection [of evs] by (auto simp: canPredict_def)


section \<open>Route overlays\<close>

lemma swapPair_lonLat: "swapPair (lonLat p) = Inr (latLon p)"
  by (simp add: swapPair_def lonLat_def latLon_def elemAt_def split_beta)

lemma remap_line: "js_map swapPair (JArr (map lonLat l)) = Inr (map latLon l)"
  by (simp add: mapM_map mapM_total [where g = latLon] swapPair_lonLat)

lemma filter_isArray_lines [simp]:
  "filter isArray (map (\<lambda>l. JArr (h l)) ls) = map (\<lambda>l. JArr (h l)) ls"
  by (induction ls) simp_all

text \<open>
  C2. When the geometry of a prediction result is an array of coordinate sequences, each
  an array of pairs \<open>[lon, lat]\<close>, the overlays are the same sequences with every pair
  turned into \<open>[lat, lon]\<close>; and \<open>[[[10,20],[11,21]]]\<close> yields \<open>[[[20,10],[21,11]]]\<close>.
\<close>

theorem polylines_swap_axes:
  "(getPropOpt res ''ors_geometry'' = JArr (map (\<lambda>l. JArr (map lonLat l)) ls)
      \<longrightarrow> polylines res = Inr (map (map latLon) ls))
   \<and> polylines (JObj [(''ors_geometry'',
          JArr [JArr [JArr [JNum (Fin 10), JNum (Fin 20)], JArr [JNum (Fin 11), JNum (Fin 21)]]])])
       = Inr [[JArr [JNum (Fin 20), JNum (Fin 10)], JArr [JNum (Fin 21), JNum (Fin 11)]]]"
proof (intro conjI impI)
  assume g: "getPropOpt res ''ors_geometry'' = JArr (map (\<lambda>l. JArr (map lonLat l)) ls)"
  have "mapM (js_map swapPair) (map (\<lambda>l. JArr (map lonLat l)) ls) = Inr (map (map latLon) ls)"
    unfolding mapM_map by (rule mapM_total) (rule remap_line)
  with g show "polylines res = Inr (map (map latLon) ls)"
    by (simp add: polylines_def)
next
  show "polylines (JObj [(''ors_geometry'',
          JArr [JArr [JArr [JNum (Fin 10), JNum (Fin 20)], JArr [JNum (Fin 11), JNum (Fin 21)]]])])
       = Inr [[JArr [JNum (Fin 20), JNum (Fin 10)], JArr [JNum (Fin 21), JNum (Fin 11)]]]"
    by (simp add: polylines_def getPropOpt_def field_def swapPair_def elemAt_def)
qed

theorem polylines_swap_axes_witness:
  "getPropOpt (JObj [(''ors_geometry'', JArr [JArr [JArr [JNum (Fin 77), JNum (Fin 12)]]])])
       ''ors_geometry''
     = JArr (map (\<lambda>l. JArr (map lonLat l)) [[(JNum (Fin 77), JNum (Fin 12))]])
   \<and> polylines (JObj [(''ors_geometry'', JArr [JArr [JArr [JNum (Fin 77), JNum (Fin 12)]]])])
     = Inr [[JArr [JNum (Fin 12), JNum (Fin 77)]]]"
proof -
  have h: "getPropOpt (JObj [(''ors_geometry'', JArr [JArr [JArr [JNum (Fin 77), JNum (Fin 12)]]])])
       ''ors_geometry''
     = JArr (map (\<lambda>l. JArr (map lonLat l)) [[(JNum (Fin 77), JNum (Fin 12))]])"
    by (simp add: getPropOpt_def field_def lonLat_def)
  from h polylines_swap_axes
    [of "JObj [(''ors_geometry'', JArr [JArr [JArr [JNum (Fin 77), JNum (Fin 12)]]])]"
      "[[(JNum (Fin 77), JNum (Fin 12))]]"]
  show ?thesis by (simp add: latLon_def)
qed

text \<open>
  C4. When the geometry is absent or not an array (and so for a \<open>null\<close> result and for a
  result with no fields), the overlays are the empty list and nothing is thrown. When it
  is an array, its entries that are not arrays have no part in the outcome: the overlays
  are those of the array entries alone, one line for each.
\<close>

theorem polylines_tolerate_missing_geometry:
  "(\<not> isArray (getPropOpt res ''ors_geometry'') \<longrightarrow> polylines res = Inr [])
   \<and> polylines JNull = Inr []
   \<and> polylines (JObj []) = Inr []
   \<and> (getPropOpt res ''ors_geometry'' = JArr g \<longrightarrow>
        polylines res = polylines (JObj [(''ors_geometry'', JArr (filter isArray g))])
      \<and> (\<forall>ls. polylines res = Inr ls \<longrightarrow> length ls = length (filter isArray g)))"
proof (intro conjI impI allI)
  assume "\<not> isArray (getPropOpt res ''ors_geometry'')"
  then show "polylines res = Inr []"
    by (cases "getPropOpt res ''ors_geometry''") (simp_all add: polylines_def)
next
  show "polylines JNull = Inr []" by (simp add: polylines_def getPropOpt_def)
next
  show "polylines (JObj []) = Inr []" by (simp add: polylines_def getPropOpt_def field_def)
next
  assume "getPropOpt res ''ors_geometry'' = JArr g"
  then show "polylines res = polylines (JObj [(''ors_geometry'', JArr (filter isArray g))])"
    by (simp add: polylines_def getPropOpt_def field_def)
next
  fix ls
  assume "getPropOpt res ''ors_geometry'' = JArr g" "polylines res = Inr ls"
  then show "length ls = length (filter isArray g)"
    by (simp add: polylines_def mapM_length)
qed


theorem polylines_tolerate_missing_geometry_witness:
  "\<not> isArray (getPropOpt (JObj [(''routes'', JArr [])]) ''ors_geometry'')
   \<and> polylines (JObj [(''routes'', JArr [])]) = Inr []
   \<and> getPropOpt (JObj [(''ors_geometry'', JArr [JNull, JArr [], JNum (Fin 5)])]) ''ors_geometry''
       = JArr [JNull, JArr [], JNum (Fin 5)]
   \<and> polylines (JObj [(''ors_geometry'', JArr [JNull, JArr [], JNum (Fin 5)])]) = Inr [[]]"
proof -
  have a: "\<not> isArray (getPropOpt (JObj [(''routes'', JArr [])]) ''ors_geometry'')"
    by (simp add: getPropOpt_def field_def)
  have b: "getPropOpt (JObj [(''ors_geometry'', JArr [JNull, JArr [], JNum (Fin 5)])]) ''ors_geometry''
       = JArr [JNull, JArr [], JNum (Fin 5)]"
    by (simp add: getPropOpt_def field_def)
  have c: "polylines (JObj [(''ors_geometry'', JArr (filter isArray [JNull, JArr [], JNum (Fin 5)]))])
       = Inr [[]]"
    by (simp add: polylines_def getPropOpt_def field_def)
  from a b c
    polylines_tolerate_missing_geometry [of "JObj [(''routes'', JArr [])]"]
    polylines_tolerate_missing_geometry
      [of "JObj [(''ors_geometry'', JArr [JNull, JArr [], JNum (Fin 5)])]"
        "[JNull, JArr [], JNum (Fin 5)]"]
  show ?thesis by simp
qed


section \<open>Route summary\<close>

lemma getProp_total: "\<not> nullish s \<Longrightarrow> getProp s k = Inr (getPropOpt s k)"
  by (cases s) (simp_all add: getPropOpt_def)

lemma truthy_not_nullish: "truthy s \<Longrightarrow> \<not> nullish s"
  by (cases s) simp_all

lemma mapM_exists: "(\<And>x. x \<in> set xs \<Longrightarrow> \<exists>y. f x = Inr y) \<Longrightarrow> \<exists>ys. mapM f xs = Inr ys"
proof (induction xs)
  case Nil
  show ?case by simp
next
  case (Cons x xs)
  then obtain y where "f x = Inr y" by auto
  moreover from Cons obtain ys where "mapM f xs = Inr ys" by auto
  ultimately show ?case by simp
qed

lemma summarize_total:
  "\<not> nullish r \<Longrightarrow>
   summarize r = Inr \<lparr>idx = getPropOpt r ''route_index'',
     avg = (case getPropOpt r ''avg_forecast_pm2_5'' of JArr xs \<Rightarrow> elemAt xs 0 | _ \<Rightarrow> JNull),
     max' = (case getPropOpt r ''max_forecast_pm2_5'' of JArr xs \<Rightarrow> elemAt xs 0 | _ \<Rightarrow> JNull),
     waypoints = getPropOpt r ''waypoints''\<rparr>"
  by (simp add: summarize_def getProp_total)

text \<open>
  C5. For a prediction result whose \<open>routes\<close> is an array of route entries (none of them
  \<open>null\<close> or \<open>undefined\<close>), the summarizer throws nothing and emits one summary for each
  entry, in order, which the panel shows as its rows. The summary carries the entry's
  \<open>route_index\<close> and \<open>waypoints\<close>; its \<open>avg\<close> (and likewise \<open>max\<close>) is the first element
  \<open>xs[0]\<close> of the forecast field when that is an array \<open>xs\<close>, and \<open>null\<close>, printed as "N/A",
  when it is not an array. The entry of the specification's example is summarized as
  \<open>{idx: 1, avg: 5.2, max: 9.1, waypoints: 4}\<close>.
\<close>

theorem summary_per_route:
  "((\<forall>r \<in> set rs. \<not> nullish r) \<and> getProp res ''routes'' = Inr (JArr rs) \<longrightarrow>
      (\<exists>sms. summary res = Inr sms \<and> length sms = length rs
         \<and> RoutePanel res
             = Inr (RoutesSummary (rs = []) (map panelRow sms) (getPropOpt res ''gemini_summary'') res)
         \<and> (\<forall>i < length rs.
               idx (sms ! i) = getPropOpt (rs ! i) ''route_index''
             \<and> waypoints (sms ! i) = getPropOpt (rs ! i) ''waypoints''
             \<and> (\<forall>xs. getPropOpt (rs ! i) ''avg_forecast_pm2_5'' = JArr xs \<longrightarrow>
                  avg (sms ! i) = elemAt xs 0)
             \<and> (\<forall>xs. getPropOpt (rs ! i) ''max_forecast_pm2_5'' = JArr xs \<longrightarrow>
                  max' (sms ! i) = elemAt xs 0)
             \<and> (\<not> isArray (getPropOpt (rs ! i) ''avg_forecast_pm2_5'') \<longrightarrow>
                  avg (sms ! i) = JNull \<and> row_avg (panelRow (sms ! i)) = JStr ''N/A'')
             \<and> (\<not> isArray (getPropOpt (rs ! i) ''max_forecast_pm2_5'') \<longrightarrow>
                  max' (sms ! i) = JNull \<and> row_max (panelRow (sms ! i)) = JStr ''N/A''))))
   \<and> summary (JObj [(''routes'', JArr [JObj [(''route_index'', JNum (Fin 1)),
          (''avg_forecast_pm2_5'', JArr [JNum (Fin 5.2)]),
          (''max_forecast_pm2_5'', JArr [JNum (Fin 9.1)]), (''waypoints'', JNum (Fin 4))]])])
       = Inr [\<lparr>idx = JNum (Fin 1), avg = JNum (Fin 5.2), max' = JNum (Fin 9.1),
                waypoints = JNum (Fin 4)\<rparr>]"
proof (intro conjI impI)
  assume h: "(\<forall>r \<in> set rs. \<not> nullish r) \<and> getProp res ''routes'' = Inr (JArr rs)"
  then have "\<And>r. r \<in> set rs \<Longrightarrow> \<exists>y. summarize r = Inr y"
    by (simp add: summarize_total)
  then obtain sms where sms: "mapM summarize rs = Inr sms"
    using mapM_exists by blast
  from h sms have s: "summary res = Inr sms"
    by (simp add: summary_def)
  have len: "length sms = length rs" using sms by (rule mapM_length)
  from h have obj: "truthy res \<and> \<not> nullish res" by (cases res) auto
  from len have emp: "(length sms = 0) = (rs = [])" by simp
  from s obj have panel: "RoutePanel res
      = Inr (RoutesSummary (rs = []) (map panelRow sms) (getPropOpt res ''gemini_summary'') res)"
    by (simp add: RoutePanel_def getProp_total emp del: length_0_conv)
  have each: "summarize (rs ! i) = Inr (sms ! i)" if "i < length rs" for i
    using sms that by (rule mapM_nth)
  have "idx (sms ! i) = getPropOpt (rs ! i) ''route_index''
      \<and> waypoints (sms ! i) = getPropOpt (rs ! i) ''waypoints''
      \<and> (\<forall>xs. getPropOpt (rs ! i) ''avg_forecast_pm2_5'' = JArr xs \<longrightarrow> avg (sms ! i) = elemAt xs 0)
      \<and> (\<forall>xs. getPropOpt (rs ! i) ''max_forecast_pm2_5'' = JArr xs \<longrightarrow> max' (sms ! i) = elemAt xs 0)
      \<and> (\<not> isArray (getPropOpt (rs ! i) ''avg_forecast_pm2_5'') \<longrightarrow>
           avg (sms ! i) = JNull \<and> row_avg (panelRow (sms ! i)) = JStr ''N/A'')
      \<and> (\<not> isArray (getPropOpt (rs ! i) ''max_forecast_pm2_5'') \<longrightarrow>
           max' (sms ! i) = JNull \<and> row_max (panelRow (sms ! i)) = JStr ''N/A'')"
    if i: "i < length rs" for i
  proof -
    from i h have nn: "\<not> nullish (rs ! i)" by simp
    from each [OF i] summarize_total [OF nn]
    have e: "sms ! i = \<lparr>idx = getPropOpt (rs ! i) ''route_index'',
       avg = (case getPropOpt (rs ! i) ''avg_forecast_pm2_5'' of JArr xs \<Rightarrow> elemAt xs 0 | _ \<Rightarrow> JNull),
       max' = (case getPropOpt (rs ! i) ''max_forecast_pm2_5'' of JArr xs \<Rightarrow> elemAt xs 0 | _ \<Rightarrow> JNull),
       waypoints = getPropOpt (rs ! i) ''waypoints''\<rparr>"
      by simp
    show ?thesis
      unfolding e
      by (cases "getPropOpt (rs ! i) ''avg_forecast_pm2_5''";
          cases "getPropOpt (rs ! i) ''max_forecast_pm2_5''")
         (simp_all add: panelRow_def shown_def)
  qed
  with s len panel show "\<exists>sms. summary res = Inr sms \<and> length sms = length rs
         \<and> RoutePanel res
             = Inr (RoutesSummary (rs = []) (map panelRow sms) (getPropOpt res ''gemini_summary'') res)
         \<and> (\<forall>i < length rs.
               idx (sms ! i) = getPropOpt (rs ! i) ''route_index''
             \<and> waypoints (sms ! i) = getPropOpt (rs ! i) ''waypoints''
             \<and> (\<forall>xs. getPropOpt (rs ! i) ''avg_forecast_pm2_5'' = JArr xs \<longrightarrow>
                  avg (sms ! i) = elemAt xs 0)
             \<and> (\<forall>xs. getPropOpt (rs ! i) ''max_forecast_pm2_5'' = JArr xs \<longrightarrow>
                  max' (sms ! i) = elemAt xs 0)
             \<and> (\<not> isArray (getPropOpt (rs ! i) ''avg_forecast_pm2_5'') \<longrightarrow>
                  avg (sms ! i) = JNull \<and> row_avg (panelRow (sms ! i)) = JStr ''N/A'')
             \<and> (\<not> isArray (getPropOpt (rs ! i) ''max_forecast_pm2_5'') \<longrightarrow>
                  max' (sms ! i) = JNull \<and> row_max (panelRow (sms ! i)) = JStr ''N/A''))"
    by blast
next
  show "summary (JObj [(''routes'', JArr [JObj [(''route_index'', JNum (Fin 1)),
          (''avg_forecast_pm2_5'', JArr [JNum (Fin 5.2)]),
          (''max_forecast_pm2_5'', JArr [JNum (Fin 9.1)]), (''waypoints'', JNum (Fin 4))]])])
       = Inr [\<lparr>idx = JNum (Fin 1), avg = JNum (Fin 5.2), max' = JNum (Fin 9.1),
                waypoints = JNum (Fin 4)\<rparr>]"
    by (simp add: summary_def summarize_def field_def elemAt_def)
qed

theorem summary_per_route_witness:
  "\<not> nullish (JObj [(''route_index'', JNum (Fin 2)), (''avg_forecast_pm2_5'', JStr ''none''),
                     (''max_forecast_pm2_5'', JArr [JNum (Fin 7)])])
   \<and> summary (JObj [(''routes'', JArr [JObj [(''route_index'', JNum (Fin 2)),
                     (''avg_forecast_pm2_5'', JStr ''none''),
                     (''max_forecast_pm2_5'', JArr [JNum (Fin 7)])]])])
       = Inr [\<lparr>idx = JNum (Fin 2), avg = JNull, max' = JNum (Fin 7), waypoints = JUndefined\<rparr>]"
proof -
  let ?r = "JObj [(''route_index'', JNum (Fin 2)), (''avg_forecast_pm2_5'', JStr ''none''),
                     (''max_forecast_pm2_5'', JArr [JNum (Fin 7)])]"
  have a: "\<forall>r \<in> set [?r]. \<not> nullish r" by simp
  have b: "getProp (JObj [(''routes'', JArr [?r])]) ''routes'' = Inr (JArr [?r])"
    by (simp add: field_def)
  from a b summary_per_route [of "[?r]" "JObj [(''routes'', JArr [?r])]"]
  obtain sms where s: "summary (JObj [(''routes'', JArr [?r])]) = Inr sms" "length sms = length [?r]"
    and e: "\<forall>i < length [?r].
               idx (sms ! i) = getPropOpt ([?r] ! i) ''route_index''
             \<and> waypoints (sms ! i) = getPropOpt ([?r] ! i) ''waypoints''
             \<and> (\<forall>xs. getPropOpt ([?r] ! i) ''avg_forecast_pm2_5'' = JArr xs \<longrightarrow>
                  avg (sms ! i) = elemAt xs 0)
             \<and> (\<forall>xs. getPropOpt ([?r] ! i) ''max_forecast_pm2_5'' = JArr xs \<longrightarrow>
                  max' (sms ! i) = elemAt xs 0)
             \<and> (\<not> isArray (getPropOpt ([?r] ! i) ''avg_forecast_pm2_5'') \<longrightarrow>
                  avg (sms ! i) = JNull \<and> row_avg (panelRow (sms ! i)) = JStr ''N/A'')
             \<and> (\<not> isArray (getPropOpt ([?r] ! i) ''max_forecast_pm2_5'') \<longrightarrow>
                  max' (sms ! i) = JNull \<and> row_max (panelRow (sms ! i)) = JStr ''N/A'')"
    by blast
  from e have "idx (sms ! 0) = JNum (Fin 2) \<and> avg (sms ! 0) = JNull
        \<and> max' (sms ! 0) = JNum (Fin 7) \<and> waypoints (sms ! 0) = JUndefined"
    by (simp add: getPropOpt_def field_def elemAt_def)
  then have "sms ! 0 = \<lparr>idx = JNum (Fin 2), avg = JNull, max' = JNum (Fin 7), waypoints = JUndefined\<rparr>"
    by simp
  moreover from s(2) have "sms = [sms ! 0]" by (cases sms) simp_all
  ultimately have "sms = [\<lparr>idx = JNum (Fin 2), avg = JNull, max' = JNum (Fin 7), waypoints = JUndefined\<rparr>]"
    by simp
  with s(1) show ?thesis by simp
qed


section \<open>The stored result\<close>

lemma canPredict_truthy:
  "truthy (canPredict p) \<Longrightarrow> truthy (start p) \<and> truthy (end' p)"
  by (simp add: canPredict_def split: if_splits)

lemma predictRequest_total:
  assumes "truthy (canPredict p)"
  shows "\<exists>req. predictRequest p = Inr req"
proof -
  from assms have s: "\<not> nullish (start p)" and e: "\<not> nullish (end' p)"
    by (simp_all add: canPredict_truthy truthy_not_nullish)
  show ?thesis
    by (simp add: predictRequest_def getProp_total [OF s] getProp_total [OF e])
qed

text \<open>Only a predict request that succeeds changes the stored result.\<close>

lemma step_keeps_result:
  "(\<And>res. e \<noteq> Predict (Resolved res)) \<Longrightarrow> routesResult (step a e) = routesResult a"
proof (cases e)
  case (LoadStations r)
  then show ?thesis by (cases "fetchStations r") simp_all
next
  case (ChangeStart i)
  then show ?thesis by (cases "findStation (stations a) i") simp_all
next
  case (ChangeEnd i)
  then show ?thesis by (cases "findStation (stations a) i") simp_all
next
  case (SetStart i)
  then show ?thesis by (cases "markedStation (stations a) i") simp_all
next
  case (SetEnd i)
  then show ?thesis by (cases "markedStation (stations a) i") simp_all
next
  case (Predict r)
  assume "\<And>res. e \<noteq> Predict (Resolved res)"
  with Predict have "r = Rejected" by (cases r) simp_all
  with Predict show ?thesis
    by (simp add: onPredict_def predictRoute_def Let_def split: sum.splits)
qed

lemma run_no_success:
  "(\<And>e res. e \<in> set evs \<Longrightarrow> e \<noteq> Predict (Resolved res)) \<Longrightarrow> routesResult (run evs) = JNull"
proof (induction evs rule: rev_induct)
  case Nil
  show ?case by (simp add: run_def init_def)
next
  case (snoc e evs)
  then show ?case by (simp add: run_snoc step_keeps_result)
qed

section \<open>Result panel\<close>

text \<open>
  C6. As long as no predict call has been made, the stored result is the initial \<open>null\<close>
  and the panel shows "No route predicted yet". For a stored result (a truthy value, as
  every JSON object is) with no route entries, that is with \<open>routes\<close> empty or falsy, the
  panel shows the routes summary with the paragraph "No valid predictions returned." and
  no row, which is a different display.
\<close>

theorem panel_states_distinct:
  "((\<forall>e \<in> set evs. \<forall>r. e \<noteq> Predict r) \<longrightarrow>
      RoutePanel (routesResult (run evs)) = Inr NoRoutePredictedYet)
   \<and> (truthy res \<and> (getPropOpt res ''routes'' = JArr [] \<or> \<not> truthy (getPropOpt res ''routes'')) \<longrightarrow>
        RoutePanel res = Inr (RoutesSummary True [] (getPropOpt res ''gemini_summary'') res)
      \<and> RoutePanel res \<noteq> Inr NoRoutePredictedYet)"
proof (intro conjI impI)
  assume "\<forall>e \<in> set evs. \<forall>r. e \<noteq> Predict r"
  then have "routesResult (run evs) = JNull" by (intro run_no_success) blast
  then show "RoutePanel (routesResult (run evs)) = Inr NoRoutePredictedYet"
    by (simp add: RoutePanel_def)
next
  assume h: "truthy res \<and> (getPropOpt res ''routes'' = JArr [] \<or> \<not> truthy (getPropOpt res ''routes''))"
  then have nn: "\<not> nullish res" by (simp add: truthy_not_nullish)
  from h have "summary res = Inr []"
    by (auto simp: summary_def getProp_total [OF nn])
  with h show p: "RoutePanel res = Inr (RoutesSummary True [] (getPropOpt res ''gemini_summary'') res)"
    by (simp add: RoutePanel_def getProp_total [OF nn])
  then show "RoutePanel res \<noteq> Inr NoRoutePredictedYet" by simp
qed

theorem panel_states_distinct_witness:
  "RoutePanel (routesResult (run [LoadStations Rejected, ChangeStart ''S1''])) = Inr NoRoutePredictedYet
   \<and> truthy (JObj [(''routes'', JArr [])])
   \<and> RoutePanel (JObj [(''routes'', JArr [])])
       = Inr (RoutesSummary True [] JUndefined (JObj [(''routes'', JArr [])]))"
proof -
  have a: "\<forall>e \<in> set [LoadStations Rejected, ChangeStart ''S1'']. \<forall>r. e \<noteq> Predict r" by simp
  have b: "truthy (JObj [(''routes'', JArr [])])
     \<and> (getPropOpt (JObj [(''routes'', JArr [])]) ''routes'' = JArr []
        \<or> \<not> truthy (getPropOpt (JObj [(''routes'', JArr [])]) ''routes''))"
    by (simp add: getPropOpt_def field_def)
  have c: "getPropOpt (JObj [(''routes'', JArr [])]) ''gemini_summary'' = JUndefined"
    by (simp add: getPropOpt_def field_def)
  from a b c
    panel_states_distinct [of "[LoadStations Rejected, ChangeStart ''S1'']" "JObj [(''routes'', JArr [])]"]
  show ?thesis by simp
qed


section \<open>The predict action\<close>

text \<open>
  C8. When both stations are picked, \<open>onPredict\<close> sends its request; if the request
  succeeds the stored result becomes the response, whatever was stored before, and if it
  fails the stored result is unchanged. A click on the enabled predict button whose
  request succeeds stores the response, and every other event (a failed predict among
  them) leaves the stored result as it was.
\<close>

theorem onPredict_result_lifecycle:
  "(truthy (canPredict (picked a)) \<longrightarrow>
      (\<exists>req. predictRequest (picked a) = Inr req
         \<and> (\<forall>res. post req = Resolved res \<longrightarrow> routesResult (fst (onPredict post a)) = res)
         \<and> (post req = Rejected \<longrightarrow> routesResult (fst (onPredict post a)) = routesResult a)))
   \<and> (\<not> predictDisabled a \<longrightarrow> routesResult (step a (Predict (Resolved res'))) = res')
   \<and> ((\<forall>r. e \<noteq> Predict (Resolved r)) \<longrightarrow> routesResult (step a e) = routesResult a)"
proof (intro conjI impI)
  assume c: "truthy (canPredict (picked a))"
  then obtain req where r: "predictRequest (picked a) = Inr req"
    using predictRequest_total by blast
  with c have "(\<forall>res. post req = Resolved res \<longrightarrow> routesResult (fst (onPredict post a)) = res)
         \<and> (post req = Rejected \<longrightarrow> routesResult (fst (onPredict post a)) = routesResult a)"
    by (simp add: onPredict_def predictRoute_def Let_def)
  with r show "\<exists>req. predictRequest (picked a) = Inr req
         \<and> (\<forall>res. post req = Resolved res \<longrightarrow> routesResult (fst (onPredict post a)) = res)
         \<and> (post req = Rejected \<longrightarrow> routesResult (fst (onPredict post a)) = routesResult a)"
    by blast
next
  assume d: "\<not> predictDisabled a"
  then have c: "truthy (canPredict (picked a))" by (simp add: predictDisabled_def)
  then obtain req where r: "predictRequest (picked a) = Inr req"
    using predictRequest_total by blast
  with c d show "routesResult (step a (Predict (Resolved res'))) = res'"
    by (simp add: onPredict_def predictRoute_def Let_def)
next
  assume "\<forall>r. e \<noteq> Predict (Resolved r)"
  then show "routesResult (step a e) = routesResult a"
    by (intro step_keeps_result) blast
qed

text \<open>
  C10. When \<open>onPredict\<close> performs a request (both stations picked), no exception escapes
  it and the loading flag is false when it ends, whether the request succeeded or
  failed; the predict button is then enabled again. When it performs no request it
  changes nothing.
\<close>

theorem onPredict_resets_loading:
  "(truthy (canPredict (picked a)) \<longrightarrow>
      snd (onPredict post a) = None
    \<and> \<not> loading (fst (onPredict post a))
    \<and> \<not> predictDisabled (fst (onPredict post a)))
   \<and> (\<not> truthy (canPredict (picked a)) \<longrightarrow> onPredict post a = (a, None))"
proof (intro conjI impI)
  assume c: "truthy (canPredict (picked a))"
  then obtain req where r: "predictRequest (picked a) = Inr req"
    using predictRequest_total by blast
  with c show "snd (onPredict post a) = None"
    by (cases "post req") (simp_all add: onPredict_def predictRoute_def Let_def)
  from c r show l: "\<not> loading (fst (onPredict post a))"
    by (cases "post req") (simp_all add: onPredict_def predictRoute_def Let_def)
  with c show "\<not> predictDisabled (fst (onPredict post a))"
    by (simp add: predictDisabled_def onPredict_picked)
next
  assume "\<not> truthy (canPredict (picked a))"
  then show "onPredict post a = (a, None)" by (simp add: onPredict_def)
qed


theorem onPredict_result_lifecycle_witness:
  "truthy (canPredict (picked (init\<lparr>routesResult := JStr ''old'', picked :=
       \<lparr>start = JObj [(''latitude'', JNum (Fin 12)), (''longitude'', JNum (Fin 77))],
        end' = JObj [(''Latitude'', JStr ''13''), (''Longitude'', JStr ''78'')]\<rparr>\<rparr>)))
   \<and> routesResult (fst (onPredict (\<lambda>req. Resolved (JObj [(''routes'', JArr [])]))
        (init\<lparr>routesResult := JStr ''old'', picked :=
       \<lparr>start = JObj [(''latitude'', JNum (Fin 12)), (''longitude'', JNum (Fin 77))],
        end' = JObj [(''Latitude'', JStr ''13''), (''Longitude'', JStr ''78'')]\<rparr>\<rparr>)))
       = JObj [(''routes'', JArr [])]
   \<and> routesResult (fst (onPredict (\<lambda>req. Rejected)
        (init\<lparr>routesResult := JStr ''old'', picked :=
       \<lparr>start = JObj [(''latitude'', JNum (Fin 12)), (''longitude'', JNum (Fin 77))],
        end' = JObj [(''Latitude'', JStr ''13''), (''Longitude'', JStr ''78'')]\<rparr>\<rparr>)))
       = JStr ''old''"
proof -
  let ?a = "init\<lparr>routesResult := JStr ''old'', picked :=
       \<lparr>start = JObj [(''latitude'', JNum (Fin 12)), (''longitude'', JNum (Fin 77))],
        end' = JObj [(''Latitude'', JStr ''13''), (''Longitude'', JStr ''78'')]\<rparr>\<rparr>"
  have c: "truthy (canPredict (picked ?a))" by (simp add: canPredict_def)
  from c onPredict_result_lifecycle [of ?a "\<lambda>req. Resolved (JObj [(''routes'', JArr [])])"]
  have 1: "routesResult (fst (onPredict (\<lambda>req. Resolved (JObj [(''routes'', JArr [])])) ?a))
       = JObj [(''routes'', JArr [])]"
    by blast
  from c onPredict_result_lifecycle [of ?a "\<lambda>req. Rejected"]
  have 2: "routesResult (fst (onPredict (\<lambda>req. Rejected) ?a)) = JStr ''old''"
    by auto
  from c 1 2 show ?thesis by blast
qed

theorem onPredict_resets_loading_witness:
  "truthy (canPredict (picked (init\<lparr>picked :=
       \<lparr>start = JObj [(''latitude'', JNum (Fin 12)), (''longitude'', JNum (Fin 77))],
        end' = JObj [(''Latitude'', JStr ''13''), (''Longitude'', JStr ''78'')]\<rparr>\<rparr>)))
   \<and> snd (onPredict (\<lambda>req. Rejected) (init\<lparr>picked :=
       \<lparr>start = JObj [(''latitude'', JNum (Fin 12)), (''longitude'', JNum (Fin 77))],
        end' = JObj [(''Latitude'', JStr ''13''), (''Longitude'', JStr ''78'')]\<rparr>\<rparr>)) = None
   \<and> \<not> loading (fst (onPredict (\<lambda>req. Rejected) (init\<lparr>picked :=
       \<lparr>start = JObj [(''latitude'', JNum (Fin 12)), (''longitude'', JNum (Fin 77))],
        end' = JObj [(''Latitude'', JStr ''13''), (''Longitude'', JStr ''78'')]\<rparr>\<rparr>)))
   \<and> \<not> truthy (canPredict (picked init))
   \<and> onPredict (\<lambda>req. Rejected) init = (init, None)"
proof -
  let ?a = "init\<lparr>picked :=
       \<lparr>start = JObj [(''latitude'', JNum (Fin 12)), (''longitude'', JNum (Fin 77))],
        end' = JObj [(''Latitude'', JStr ''13''), (''Longitude'', JStr ''78'')]\<rparr>\<rparr>"
  have c: "truthy (canPredict (picked ?a))" by (simp add: canPredict_def)
  have n: "\<not> truthy (canPredict (picked init))" by (simp add: canPredict_def init_def)
  from c onPredict_resets_loading [of ?a "\<lambda>req. Rejected"]
  have l: "snd (onPredict (\<lambda>req. Rejected) ?a) = None"
    "\<not> loading (fst (onPredict (\<lambda>req. Rejected) ?a))"
    by blast+
  from n onPredict_resets_loading [of init "\<lambda>req. Rejected"]
  have "onPredict (\<lambda>req. Rejected) init = (init, None)" by blast
  with c n l show ?thesis by blast
qed


section \<open>Markers and dropdown entries\<close>








end
